theory Spec2Isabelle
  imports Main "HOL-Library.Sublist"
begin

section \<open>JavaScript string primitives used by the Go target\<close>

text \<open>
  Strings are lists of 8-bit characters.  The generator only inspects ASCII
  letters, digits and punctuation; a code unit outside ASCII is never a letter
  or digit for the patterns below and is left unchanged by \<open>toUpperCase\<close>.
\<close>

definition lowers :: string where
  "lowers = ''abcdefghijklmnopqrstuvwxyz''"

definition uppers :: string where
  "uppers = ''ABCDEFGHIJKLMNOPQRSTUVWXYZ''"

definition digits :: string where
  "digits = ''0123456789''"

definition isLower :: "char \<Rightarrow> bool" where
  "isLower c = (c \<in> set lowers)"

definition isUpper :: "char \<Rightarrow> bool" where
  "isUpper c = (c \<in> set uppers)"

definition isDigit :: "char \<Rightarrow> bool" where
  "isDigit c = (c \<in> set digits)"

text \<open>The character class \<^verbatim>\<open>[a-z0-9]\<close> under the \<^verbatim>\<open>i\<close> flag.\<close>

definition isAlnum :: "char \<Rightarrow> bool" where
  "isAlnum c = (isLower c \<or> isUpper c \<or> isDigit c)"

definition toUpperCase :: "char \<Rightarrow> char" where
  "toUpperCase c = (case map_of (zip lowers uppers) c of Some u \<Rightarrow> u | None \<Rightarrow> c)"

text \<open>\<^verbatim>\<open>str.replace(/needle/g, rep)\<close> for a literal needle and a replacement without
  \<^verbatim>\<open>$\<close> patterns: every match, scanning left to right, matches not overlapping.\<close>

fun replaceAll :: "string \<Rightarrow> string \<Rightarrow> string \<Rightarrow> string" where
  "replaceAll needle rep [] = []"
| "replaceAll needle rep (c # cs) =
     (if needle \<noteq> [] \<and> prefix needle (c # cs)
      then rep @ replaceAll needle rep (drop (length needle) (c # cs))
      else c # replaceAll needle rep cs)"

text \<open>\<^verbatim>\<open>str.replace(pattern, rep)\<close> for a string pattern: the first occurrence only.\<close>

fun replaceFirst :: "string \<Rightarrow> string \<Rightarrow> string \<Rightarrow> string" where
  "replaceFirst pat rep [] = (if pat = [] then rep else [])"
| "replaceFirst pat rep (c # cs) =
     (if prefix pat (c # cs) then rep @ drop (length pat) (c # cs)
      else c # replaceFirst pat rep cs)"

text \<open>\<^verbatim>\<open>str.split(sep)\<close> for a one-character separator.\<close>

fun splitOn :: "char \<Rightarrow> string \<Rightarrow> string \<Rightarrow> string list" where
  "splitOn sep cur [] = [cur]"
| "splitOn sep cur (c # cs) =
     (if c = sep then cur # splitOn sep [] cs else splitOn sep (cur @ [c]) cs)"

text \<open>\<^verbatim>\<open>str.split(/[^a-z0-9]+/ig)\<close>: the separators are the maximal runs of characters
  that are neither letters nor digits; the flag tells whether the scan is inside such
  a run.\<close>

fun splitNonAlnum :: "bool \<Rightarrow> string \<Rightarrow> string \<Rightarrow> string list" where
  "splitNonAlnum inSep cur [] = [cur]"
| "splitNonAlnum inSep cur (c # cs) =
     (if isAlnum c then splitNonAlnum False (cur @ [c]) cs
      else if inSep then splitNonAlnum True cur cs
      else cur # splitNonAlnum True [] cs)"

definition isSpace :: "char \<Rightarrow> bool" where
  "isSpace c = (c \<in> {CHR 0x09, CHR 0x0A, CHR 0x0B, CHR 0x0C, CHR 0x0D, CHR '' ''})"

definition trim :: "string \<Rightarrow> string" where
  "trim s = rev (dropWhile isSpace (rev (dropWhile isSpace s)))"

section \<open>Name resolution\<close>

text \<open>Uppercases the first character in the string.\<close>

definition upperFirst :: "string \<Rightarrow> string" where
  "upperFirst str = map toUpperCase (take 1 str) @ drop 1 str"

text \<open>The terms whose cased versions are treated specially, in the order of the
  source's table.\<close>

definition capitalizations :: "(string \<times> string) list" where
  "capitalizations = [(''Id'', ''ID''), (''Oauth'', ''OAuth'')]"

definition fixCaps :: "string \<Rightarrow> string" where
  "fixCaps str = fold (\<lambda>cap s. replaceAll (fst cap) (snd cap) s) capitalizations str"

text \<open>The internal Go name of a property.\<close>

definition translatePropName :: "string \<Rightarrow> bool \<Rightarrow> string" where
  "translatePropName name isExported =
     (let joined = (case splitNonAlnum False [] name of
                      [] \<Rightarrow> []
                    | s # ss \<Rightarrow> (if isExported then upperFirst s else s) @ concat (map upperFirst ss));
          name' = (if joined = ''type'' then ''kind'' else joined)
      in fixCaps name')"

section \<open>The API model read by the generator\<close>

text \<open>
  The resolved model is produced by the RAML parser and is read-only.  A type
  declaration answers \<open>name()\<close>, \<open>displayName()\<close> (\<open>None\<close> is \<^verbatim>\<open>null\<close>),
  \<open>required()\<close> and \<open>type()\<close>; an array declaration also answers \<open>items()\<close>, and
  an object declaration \<open>properties()\<close> (\<open>None\<close>: the declaration has no such
  member, which is what \<^verbatim>\<open>"properties" in type\<close> tests).
\<close>

datatype TypeDeclaration = TypeDeclaration
  (decl_name: string)
  (decl_displayName: "string option")
  (decl_required: bool)
  (decl_type: "string list")
  (decl_items: "TypeDeclaration option")
  (decl_properties: "TypeDeclaration list option")

record Response =
  res_code :: string
  res_body :: "TypeDeclaration list"

record Trait =
  trait_queryParameters :: "TypeDeclaration list"
  trait_body :: "TypeDeclaration list"

record Method =
  method_displayName :: "string option"
  method_method :: string
  method_queryParameters :: "TypeDeclaration list"
  method_body :: "TypeDeclaration list"
  method_is :: "Trait list"
  method_responses :: "Response list"

record Resource =
  absoluteUri :: string
  absoluteUriParameters :: "TypeDeclaration list"

text \<open>The only exception the generator's own code can raise: reading a member of
  \<^verbatim>\<open>undefined\<close> or \<^verbatim>\<open>null\<close>.\<close>

datatype error = TypeError

section \<open>Type translation\<close>

text \<open>The Go type for a RAML type string.\<close>

function translateTypeString :: "string \<Rightarrow> string" where
  "translateTypeString str =
     (if suffix ''[]'' str then ''[]'' @ translateTypeString (take (length str - 2) str)
      else if CHR ''|'' \<in> set str then ''interface{}''
      else if str = ''string'' then ''string''
      else if str = ''integer'' \<or> str = ''number'' then ''int''
      else if str = ''uint'' then ''uint''
      else if str = ''boolean'' then ''bool''
      else if str = ''object'' then ''map[string]interface{}''
      else if str = ''file'' then ''io.Reader''
      else if str = ''IsoDate'' then ''time.Time''
      else if str = ''UnixTimestampMillis'' then ''time.Time''
      else str)"
  by pat_completeness auto
termination
  by (relation "measure length") (auto simp: suffix_def)

declare translateTypeString.simps [simp del]

text \<open>\<^verbatim>\<open>xs[0]\<close>: \<open>None\<close> is \<^verbatim>\<open>undefined\<close>.\<close>

definition first :: "'a list \<Rightarrow> 'a option" where
  "first xs = (case xs of [] \<Rightarrow> None | x # _ \<Rightarrow> Some x)"

text \<open>The Go type for a RAML type declaration.  \<^verbatim>\<open>translateTypeString(undefined)\<close>
  and \<^verbatim>\<open>items()\<close> of a declaration without items raise.\<close>

definition translateType :: "TypeDeclaration \<Rightarrow> error + string" where
  "translateType type =
     (let out = (if \<not> decl_required type then ''*'' else []) in
      case first (decl_type type) of
        None \<Rightarrow> Inl TypeError
      | Some primary \<Rightarrow>
          if primary = ''array'' then
            (case decl_items type of
               None \<Rightarrow> Inl TypeError
             | Some it \<Rightarrow>
                 (case first (decl_type it) of
                    None \<Rightarrow> Inl TypeError
                  | Some primary' \<Rightarrow> Inr (fixCaps ((out @ ''[]'') @ translateTypeString primary'))))
          else Inr (fixCaps (out @ translateTypeString primary)))"

section \<open>Responses and endpoint names\<close>

text \<open>
  \<^verbatim>\<open>Number(str)\<close> on a status code.  The parser delivers status codes as strings of
  decimal digits; on those (and on the empty string, which is 0) the conversion is
  exact for the comparison with 300.  Every other string is read as \<^verbatim>\<open>NaN\<close>
  (\<open>None\<close>); signs, fractions, exponents, other radices and surrounding white space
  are not modelled.
\<close>

definition digitValue :: "char \<Rightarrow> int" where
  "digitValue c = (case map_of (zip digits [0, 1, 2, 3, 4, 5, 6, 7, 8, 9]) c of
                     Some d \<Rightarrow> d | None \<Rightarrow> 0)"

definition Number :: "string \<Rightarrow> int option" where
  "Number str = (if list_all isDigit str
                 then Some (foldl (\<lambda>n c. 10 * n + digitValue c) 0 str) else None)"

definition isGood :: "Response \<Rightarrow> bool" where
  "isGood res = (case Number (res_code res) of None \<Rightarrow> False | Some n \<Rightarrow> n < 300)"

text \<open>Finds the successful response for a method (\<open>None\<close> is \<^verbatim>\<open>undefined\<close>).\<close>

definition getSuccessfulResponse :: "Method \<Rightarrow> Response option" where
  "getSuccessfulResponse method = find isGood (method_responses method)"

text \<open>The test \<^verbatim>\<open>/^\{.+\}$/\<close>: a brace pair around at least one character, none of
  them a line terminator.\<close>

definition isParamSegment :: "string \<Rightarrow> bool" where
  "isParamSegment seg =
     (3 \<le> length seg \<and> hd seg = CHR ''{'' \<and> last seg = CHR ''}'' \<and>
      list_all (\<lambda>c. c \<noteq> CHR 0x0A \<and> c \<noteq> CHR 0x0D) (butlast (tl seg)))"

text \<open>\<^verbatim>\<open>parts[parts.length - 1] = primary\<close>: on an empty array this sets the property
  \<^verbatim>\<open>-1\<close>, which \<^verbatim>\<open>join\<close> does not read.\<close>

definition setLast :: "'a list \<Rightarrow> 'a \<Rightarrow> 'a list" where
  "setLast parts v = (if parts = [] then [] else butlast parts @ [v])"

text \<open>A method name to query the method on the specified resource.  \<open>primary\<close> is
  \<open>None\<close> when the chain \<^verbatim>\<open>sr && sr.body().length && sr.body()[0].type()[0]\<close> stops at
  \<^verbatim>\<open>undefined\<close> or 0.\<close>

definition inferMethodName :: "Resource \<Rightarrow> Method \<Rightarrow> string" where
  "inferMethodName resource method =
     (case method_displayName method of
        Some d \<Rightarrow> d
      | None \<Rightarrow>
          (let parts = drop 5 (map upperFirst
                 (filter (\<lambda>seg. \<not> isParamSegment seg)
                    (splitOn (CHR ''/'') [] (absoluteUri resource))));
               primary = (case getSuccessfulResponse method of
                            None \<Rightarrow> None
                          | Some sr \<Rightarrow>
                              (case first (res_body sr) of
                                 None \<Rightarrow> None
                               | Some b \<Rightarrow> first (decl_type b)));
               parts' = (case primary of
                           None \<Rightarrow> parts
                         | Some p \<Rightarrow>
                             (case first p of
                                None \<Rightarrow> parts
                              | Some c \<Rightarrow> if toUpperCase c = c then setLast parts p else parts));
               tail = fixCaps (filter isAlnum (concat parts'));
               verb = method_method method
           in if verb = ''get'' then ''Get'' @ tail
              else if verb = ''post'' then ''Create'' @ tail
              else if verb = ''put'' \<or> verb = ''patch'' then ''Update'' @ tail
              else if verb = ''delete'' then ''Delete'' @ tail
              else ''UNKNOWN''))"

section \<open>The source builder\<close>

text \<open>
  Modelled from the spec: the builder classes \<open>Module\<close>, \<open>File\<close>, \<open>Struct\<close>, \<open>Func\<close>,
  \<open>Arg\<close> and \<open>Call\<close> of the module \<^verbatim>\<open>./lang\<close> are not among the sources.  Their
  contract is: a struct and a function are obtained or created by name (a second
  request for an existing name returns the same definition); fields, arguments,
  return types and body text are appended in call order, without deduplication;
  imports are deduplicated; the module keeps a registry of the identifiers declared
  during the run.  A \<open>File\<close> value holds one file together with the registry of its
  module, which \<^verbatim>\<open>file.module.getIdentifier\<close> reads.
\<close>

text \<open>Modelled from the spec: a struct definition of \<^verbatim>\<open>./lang\<close>, a name and ordered fields (identifier,
  type, serialization tag; the tag is \<open>None\<close> when the caller passes none).\<close>

record Struct =
  struct_name :: string
  struct_fields :: "(string \<times> string \<times> string option) list"

text \<open>Modelled from the spec: an argument of \<^verbatim>\<open>./lang\<close>, a name and a type.\<close>

datatype Arg = Arg (arg_name: string) (arg_type: string)

text \<open>Modelled from the spec: a function definition of \<^verbatim>\<open>./lang\<close>: name, receiver, ordered arguments,
  ordered return types, ordered body segments.\<close>

record Func =
  func_name :: string
  func_receiver :: "string option"
  func_args :: "Arg list"
  func_returns :: "string list"
  func_body :: "string list"

text \<open>Modelled from the spec: a file of \<^verbatim>\<open>./lang\<close>: imports, structs and functions in declaration order, and
  the identifier registry of the module that owns the file.\<close>

record File =
  file_identifiers :: "string list"
  file_imports :: "string list"
  file_structs :: "Struct list"
  file_funcs :: "Func list"

text \<open>Modelled from the spec: \<^verbatim>\<open>module.getIdentifier(name)\<close> of \<^verbatim>\<open>./lang\<close>, whether the name is
  in the registry.\<close>

definition getIdentifier :: "string \<Rightarrow> File \<Rightarrow> bool" where
  "getIdentifier name file = (name \<in> set (file_identifiers file))"

text \<open>Modelled from the spec: \<^verbatim>\<open>file.import(path)\<close> of \<^verbatim>\<open>./lang\<close>, idempotent.\<close>

definition file_import :: "string \<Rightarrow> File \<Rightarrow> File" where
  "file_import path file =
     (if path \<in> set (file_imports file) then file
      else file\<lparr>file_imports := file_imports file @ [path]\<rparr>)"

text \<open>Modelled from the spec: \<^verbatim>\<open>file.struct(name)\<close> of \<^verbatim>\<open>./lang\<close>, obtain or create; a new struct is
  registered.\<close>

definition file_struct :: "string \<Rightarrow> File \<Rightarrow> File" where
  "file_struct name file =
     (if list_ex (\<lambda>s. struct_name s = name) (file_structs file) then file
      else file\<lparr>file_structs := file_structs file @ [\<lparr>struct_name = name, struct_fields = []\<rparr>],
                file_identifiers := file_identifiers file @ [name]\<rparr>)"

text \<open>Modelled from the spec: \<^verbatim>\<open>struct.field(identifier, type, tag)\<close> of \<^verbatim>\<open>./lang\<close> on the struct
  of the given name: append, no deduplication.\<close>

definition struct_field :: "string \<Rightarrow> string \<times> string \<times> string option \<Rightarrow> File \<Rightarrow> File" where
  "struct_field name fld file =
     file\<lparr>file_structs :=
            map (\<lambda>s. if struct_name s = name then s\<lparr>struct_fields := struct_fields s @ [fld]\<rparr> else s)
              (file_structs file)\<rparr>"

text \<open>Modelled from the spec: \<^verbatim>\<open>file.func(name)\<close> of \<^verbatim>\<open>./lang\<close>, obtain or create; a new function is
  registered.\<close>

definition file_func :: "string \<Rightarrow> File \<Rightarrow> File" where
  "file_func name file =
     (if list_ex (\<lambda>f. func_name f = name) (file_funcs file) then file
      else file\<lparr>file_funcs := file_funcs file @
                  [\<lparr>func_name = name, func_receiver = None, func_args = [],
                    func_returns = [], func_body = []\<rparr>],
                file_identifiers := file_identifiers file @ [name]\<rparr>)"

text \<open>Modelled from the spec: a change to the function of the given name, which the methods of
  \<open>Func\<close> in \<^verbatim>\<open>./lang\<close> make in place.\<close>

definition func_update :: "string \<Rightarrow> (Func \<Rightarrow> Func) \<Rightarrow> File \<Rightarrow> File" where
  "func_update name g file =
     file\<lparr>file_funcs := map (\<lambda>f. if func_name f = name then g f else f) (file_funcs file)\<rparr>"

text \<open>Modelled from the spec: \<^verbatim>\<open>func.methodOf(receiver)\<close> of \<^verbatim>\<open>./lang\<close>.\<close>

definition func_methodOf :: "string \<Rightarrow> string \<Rightarrow> File \<Rightarrow> File" where
  "func_methodOf name receiver = func_update name (\<lambda>f. f\<lparr>func_receiver := Some receiver\<rparr>)"

text \<open>Modelled from the spec: \<^verbatim>\<open>func.addArgs(...args)\<close> of \<^verbatim>\<open>./lang\<close>, append in call order.\<close>

definition func_addArgs :: "string \<Rightarrow> Arg list \<Rightarrow> File \<Rightarrow> File" where
  "func_addArgs name args = func_update name (\<lambda>f. f\<lparr>func_args := func_args f @ args\<rparr>)"

text \<open>Modelled from the spec: \<^verbatim>\<open>func.arg(name, type)\<close> of \<^verbatim>\<open>./lang\<close>.\<close>

definition func_arg :: "string \<Rightarrow> string \<Rightarrow> string \<Rightarrow> File \<Rightarrow> File" where
  "func_arg name a t = func_addArgs name [Arg a t]"

text \<open>Modelled from the spec: \<^verbatim>\<open>func.returns(type)\<close> of \<^verbatim>\<open>./lang\<close>, append in call order.\<close>

definition func_returns_add :: "string \<Rightarrow> string \<Rightarrow> File \<Rightarrow> File" where
  "func_returns_add name t = func_update name (\<lambda>f. f\<lparr>func_returns := func_returns f @ [t]\<rparr>)"

text \<open>Modelled from the spec: \<^verbatim>\<open>func.write(text)\<close> of \<^verbatim>\<open>./lang\<close>, append in call order.\<close>

definition func_write :: "string \<Rightarrow> string \<Rightarrow> File \<Rightarrow> File" where
  "func_write name text = func_update name (\<lambda>f. f\<lparr>func_body := func_body f @ [text]\<rparr>)"

text \<open>Modelled from the spec: the function of a name, as \<^verbatim>\<open>file.func(name)\<close> of
  \<^verbatim>\<open>./lang\<close> returns it once it exists.\<close>

definition the_func :: "string \<Rightarrow> File \<Rightarrow> Func option" where
  "the_func name file = find (\<lambda>f. func_name f = name) (file_funcs file)"

text \<open>Modelled from the spec: the struct of a name, as \<^verbatim>\<open>file.struct(name)\<close> of \<^verbatim>\<open>./lang\<close>
  returns it once it exists.\<close>

definition the_struct :: "string \<Rightarrow> File \<Rightarrow> Struct option" where
  "the_struct name file = find (\<lambda>s. struct_name s = name) (file_structs file)"

section \<open>Flattening type declarations into structs\<close>

text \<open>A result is \<open>None\<close> when the call does not return, \<open>Some (Inl e)\<close> when it raises
  and \<open>Some (Inr s)\<close> when it returns with the builder in state \<open>s\<close>.\<close>

type_synonym 's result = "(error + 's) option"

text \<open>\<^verbatim>\<open>xs.forEach(f)\<close> for a callback that may raise or not return.\<close>

fun forEach :: "('a \<Rightarrow> 's \<Rightarrow> 's result) \<Rightarrow> 'a list \<Rightarrow> 's \<Rightarrow> 's result" where
  "forEach f [] s = Some (Inr s)"
| "forEach f (x # xs) s =
     Option.bind (f x s) (\<lambda>r. case r of Inl e \<Rightarrow> Some (Inl e) | Inr s' \<Rightarrow> forEach f xs s')"

lemma forEach_mono [partial_function_mono]:
  assumes "\<And>x s. mono_option (\<lambda>g. B g x s)"
  shows "mono_option (\<lambda>g. forEach (B g) xs s)"
proof (induction xs arbitrary: s)
  case Nil
  show ?case by (simp add: option.const_mono)
next
  case (Cons x xs)
  have step: "mono_option (\<lambda>g. case r of Inl e \<Rightarrow> Some (Inl e) | Inr s' \<Rightarrow> forEach (B g) xs s')"
    for r :: "error + 'b"
    by (cases r) (simp_all add: option.const_mono Cons.IH)
  show ?case
    unfolding forEach.simps
    by (rule bind_mono [OF assms step])
qed

text \<open>The fields of the declared properties, appended to the struct of the given
  name; translating a property's type may raise.\<close>

fun addFields :: "string \<Rightarrow> TypeDeclaration list \<Rightarrow> File \<Rightarrow> error + File" where
  \<open>addFields struct [] file = Inr file\<close>
| \<open>addFields struct (prop # props) file =
     (case translateType prop of
        Inl e \<Rightarrow> Inl e
      | Inr t \<Rightarrow>
          addFields struct props
            (struct_field struct
               (translatePropName (decl_name prop) True, t,
                Some (''json:"'' @ decl_name prop @ ''"'')) file))\<close>

text \<open>The recursive closure \<open>gen\<close> of \<open>generateStruct\<close>: the fields of the type, then
  those of every supertype, found by name among the types of the API.\<close>

partial_function (option) gen ::
    "TypeDeclaration list \<Rightarrow> string \<Rightarrow> TypeDeclaration \<Rightarrow> File \<Rightarrow> File result" where
  "gen api struct type file =
     (case decl_properties type of
        None \<Rightarrow> Some (Inr file)
      | Some props \<Rightarrow>
          (case addFields struct props file of
             Inl e \<Rightarrow> Some (Inl e)
           | Inr file' \<Rightarrow>
               forEach (\<lambda>subtype fl.
                   case find (\<lambda>t. decl_name t = subtype) api of
                     None \<Rightarrow> Some (Inr fl)
                   | Some t \<Rightarrow> gen api struct t fl)
                 (decl_type type) file'))"

text \<open>Writes a struct containing the specified list of types.\<close>

definition generateStruct ::
    "File \<Rightarrow> TypeDeclaration list \<Rightarrow> string \<Rightarrow> TypeDeclaration \<Rightarrow> File result" where
  "generateStruct file api name type = gen api name type (file_struct name file)"

section \<open>Generating the function of one endpoint\<close>

definition nl :: string where
  "nl = [CHR 0x0A]"

text \<open>One line of a template literal, with its line break.\<close>

definition ln :: "string \<Rightarrow> string" where
  "ln s = s @ nl"

text \<open>
  The class \<open>Request\<close>: the file under construction, the resource, and, per method,
  the function (held by its name in the file, as \<^verbatim>\<open>file.func\<close> hands out the file's
  own object) and three write collectors.  \<open>req_console\<close> is what the generator has
  written to the error console.
\<close>

record Request =
  req_file :: File
  req_resource :: Resource
  req_func :: string
  req_options :: "string list"
  req_before :: "string list"
  req_after :: "string list"
  req_console :: "string list"

text \<open>\<^verbatim>\<open>xs.map(f)\<close> for a callback that may raise.\<close>

fun mapE :: "('a \<Rightarrow> error + 'b) \<Rightarrow> 'a list \<Rightarrow> error + 'b list" where
  "mapE f [] = Inr []"
| "mapE f (x # xs) =
     (case f x of
        Inl e \<Rightarrow> Inl e
      | Inr y \<Rightarrow> (case mapE f xs of Inl e \<Rightarrow> Inl e | Inr ys \<Rightarrow> Inr (y # ys)))"

text \<open>The arguments used to format the path.\<close>

definition getPathFmtArgs :: "Request \<Rightarrow> error + Arg list" where
  "getPathFmtArgs req =
     mapE (\<lambda>param. case translateType param of
                      Inl e \<Rightarrow> Inl e
                    | Inr t \<Rightarrow> Inr (Arg (translatePropName (decl_name param) False) t))
       (drop 1 (absoluteUriParameters (req_resource req)))"

text \<open>The placeholder that replaces a path parameter in the format string.\<close>

definition placeholder :: "TypeDeclaration \<Rightarrow> string" where
  "placeholder param = (if first (decl_type param) = Some ''number'' then ''%d'' else ''%s'')"

text \<open>The format string of the path: the URI with the version and then each
  parameter after the first replaced, first occurrence only.\<close>

definition pathFormat :: "Resource \<Rightarrow> string" where
  "pathFormat resource =
     fold (\<lambda>param uri. replaceFirst (''{'' @ decl_name param @ ''}'') (placeholder param) uri)
       (drop 1 (absoluteUriParameters resource))
       (replaceFirst ''{version}'' ''1'' (absoluteUri resource))"

text \<open>The expression that computes the path to query.  The rendering of a \<open>Call\<close>
  belongs to the builder module and is a parameter.\<close>

definition getPathFmtCall ::
    "(string \<Rightarrow> Arg list \<Rightarrow> string) \<Rightarrow> Request \<Rightarrow> error + string \<times> Request" where
  \<open>getPathFmtCall call req =
     (let uri = replaceFirst ''{version}'' ''1'' (absoluteUri (req_resource req)) in
      case getPathFmtArgs req of
        Inl e \<Rightarrow> Inl e
      | Inr args \<Rightarrow>
          if args = [] then Inr (''"'' @ uri @ ''" + q'', req)
          else
            Inr (trim (call ''fmt.Sprintf''
                         (Arg (''"'' @ pathFormat (req_resource req) @ ''"'') ''string'' # args))
                   @ '' + q'',
                 req\<lparr>req_file := file_import ''fmt'' (req_file req)\<rparr>))\<close>

text \<open>The query parameters of a method: its own, then those of its traits.\<close>

definition queryParams :: "Method \<Rightarrow> TypeDeclaration list" where
  "queryParams method =
     fold (\<lambda>trait params. params @ trait_queryParameters trait)
       (method_is method) (method_queryParameters method)"

fun addQueryParams :: "string \<Rightarrow> TypeDeclaration list \<Rightarrow> Request \<Rightarrow> error + Request" where
  \<open>addQueryParams type [] req = Inr req\<close>
| \<open>addQueryParams type (prop # props) req =
     (let propName = translatePropName (decl_name prop) True in
      case first (decl_type prop) of
        None \<Rightarrow> Inl TypeError
      | Some t \<Rightarrow>
          addQueryParams type props
            (req\<lparr>req_file := struct_field type (propName, translateTypeString t, None) (req_file req),
                 req_before := req_before req @
                   [''v.Set("'' @ decl_name prop @ ''", query.'' @ propName @ '')'' @ nl]\<rparr>))\<close>

text \<open>Adds query parameter initializations to the current request, if needed.\<close>

definition generateQueryParams :: "Method \<Rightarrow> Request \<Rightarrow> error + Request" where
  \<open>generateQueryParams method req =
     (if queryParams method = [] then
        Inr (req\<lparr>req_before := req_before req @ [''q := ""'' @ nl]\<rparr>)
      else
        (let type = req_func req @ ''Params'';
             file1 = file_import ''net/url'' (req_file req);
             file2 = file_struct type file1;
             file3 = func_arg (req_func req) ''query'' type file2;
             req1 = req\<lparr>req_file := file3,
                        req_before := req_before req @ [''v := url.Values{}'' @ nl]\<rparr>
         in case addQueryParams type (queryParams method) req1 of
              Inl e \<Rightarrow> Inl e
            | Inr req2 \<Rightarrow>
                Inr (req2\<lparr>req_before := req_before req2 @ [''q := "?" + v.Encode()'' @ nl]\<rparr>)))\<close>

text \<open>The body declarations of a method: its own, then those of its traits.\<close>

definition bodies :: "Method \<Rightarrow> TypeDeclaration list" where
  "bodies method =
     fold (\<lambda>trait params. params @ trait_body trait) (method_is method) (method_body method)"

definition marshalText :: string where
  "marshalText =
     nl @ ln ''                body, err := json.Marshal(payload)''
        @ ln ''                if err != nil {''
        @ ln ''                    return err''
        @ ln ''                }''
        @ ''            ''"

definition bodyOptionsText :: string where
  \<open>bodyOptionsText =
     nl @ ln ''                Body: bytes.NewReader(body),''
        @ ln ''                ContentLength: len(body),''
        @ ln ''                Header: http.Header{"Content-Type": {"application/json"}},''
        @ ''            ''\<close>

definition generateBodyParams ::
    "TypeDeclaration list \<Rightarrow> Method \<Rightarrow> Request \<Rightarrow> Request result" where
  "generateBodyParams api method req =
     (case first (bodies method) of
        None \<Rightarrow> Some (Inr req)
      | Some body \<Rightarrow>
          if decl_displayName body = Some ''application/json'' then
            (case first (decl_type body) of
               None \<Rightarrow> Some (Inl TypeError)
             | Some t \<Rightarrow>
                 Option.bind
                   (if \<not> getIdentifier (translateTypeString t) (req_file req)
                    then Option.bind
                           (generateStruct (req_file req) api (req_func req @ ''Payload'') body)
                           (\<lambda>r. case r of
                                  Inl e \<Rightarrow> Some (Inl e)
                                | Inr file \<Rightarrow> Some (Inr (req_func req @ ''Payload'', file)))
                    else Some (Inr (translateTypeString t, req_file req)))
                   (\<lambda>r. case r of
                          Inl e \<Rightarrow> Some (Inl e)
                        | Inr (type, file) \<Rightarrow>
                            Some (Inr (req\<lparr>
                              req_file := file_import ''encoding/json'' (file_import ''bytes''
                                            (func_arg (req_func req) ''payload'' type file)),
                              req_before := req_before req @ [marshalText],
                              req_options := req_options req @ [bodyOptionsText]\<rparr>))))
          else if decl_displayName body = Some ''multipart/form-data'' then Some (Inr req)
          else Some (Inr (req\<lparr>req_console := req_console req @ [''Unknown body type:'']\<rparr>)))"

text \<open>The text written after the request when there is a successful response.
  \<open>resType\<close> is \<open>None\<close> while the variable is \<^verbatim>\<open>undefined\<close>, which a template
  renders as that word; the empty string is falsy as well.\<close>

definition decodeText :: "string option \<Rightarrow> string" where
  "decodeText resType =
     nl @ ln ''            if err != nil || res.StatusCode >= 300 {''
        @ ln (''                return res, ''
                @ (if resType \<noteq> None \<and> resType \<noteq> Some [] then ''nil, '' else [])
                @ ''err'')
        @ ln ''            }''
        @ nl
        @ ln (''            var typ '' @ (case resType of None \<Rightarrow> ''undefined'' | Some t \<Rightarrow> t))
        @ ln ''            if err := json.NewDecoder(res.Body).Decode(&typ); err != nil {''
        @ ln ''                return err''
        @ ln ''            }''
        @ nl
        @ ln ''            return res, typ, nil''
        @ ''        ''"

text \<open>Generates the post-request serialization and return values for the function
  under construction.\<close>

definition generateFuncReturns :: "Method \<Rightarrow> Request \<Rightarrow> error + Request" where
  "generateFuncReturns method req =
     (let goodRes = getSuccessfulResponse method;
          file1 = func_returns_add (req_func req) ''*http.Response'' (req_file req)
      in case (case goodRes of
                 None \<Rightarrow> Inr None
               | Some res \<Rightarrow>
                   (case first (res_body res) of
                      None \<Rightarrow> Inr None
                    | Some b \<Rightarrow> (case translateType b of Inl e \<Rightarrow> Inl e | Inr t \<Rightarrow> Inr (Some t)))) of
           Inl e \<Rightarrow> Inl e
         | Inr resType \<Rightarrow>
             (let file2 = (case resType of
                             None \<Rightarrow> file1
                           | Some t \<Rightarrow> func_returns_add (req_func req) t file1);
                  file3 = func_returns_add (req_func req) ''error'' file2
              in if goodRes = None
                 then Inr (req\<lparr>req_file := file3,
                               req_after := req_after req @ [''return res, err'' @ nl]\<rparr>)
                 else Inr (req\<lparr>req_file := file3,
                               req_after := req_after req @ [decodeText resType]\<rparr>)))"

text \<open>Adds a method to query the endpoint on the resource to the associated file.\<close>

definition Request_method ::
    "(string \<Rightarrow> Arg list \<Rightarrow> string) \<Rightarrow> TypeDeclaration list \<Rightarrow> Method \<Rightarrow> Request
      \<Rightarrow> Request result" where
  \<open>Request_method call api method req =
     (let name = inferMethodName (req_resource req) method;
          file1 = func_methodOf name ''c *Client''
                    (file_func name (file_import ''net/http'' (req_file req)))
      in case getPathFmtArgs req of
           Inl e \<Rightarrow> Some (Inl e)
         | Inr args \<Rightarrow>
             (let req1 = req\<lparr>req_file := func_addArgs name args file1, req_func := name,
                             req_options := [], req_before := [], req_after := []\<rparr>
              in case generateQueryParams method req1 of
                   Inl e \<Rightarrow> Some (Inl e)
                 | Inr req2 \<Rightarrow>
                     Option.bind (generateBodyParams api method req2)
                       (\<lambda>r. case r of
                              Inl e \<Rightarrow> Some (Inl e)
                            | Inr req3 \<Rightarrow>
                                (case generateFuncReturns method req3 of
                                   Inl e \<Rightarrow> Some (Inl e)
                                 | Inr req4 \<Rightarrow>
                                     (case getPathFmtCall call req4 of
                                        Inl e \<Rightarrow> Some (Inl e)
                                      | Inr (url, req5) \<Rightarrow>
                                          Some (Inr (req5\<lparr>req_file :=
                                            func_write name
                                              (nl @ ln (''            '' @ concat (req_before req5))
                                                  @ ln ''            res, err := c.do(&http.Request{''
                                                  @ ln (''                Method: "'' @ method_method method @ ''",'')
                                                  @ ln (''                URL: '' @ url @ '','')
                                                  @ ln (''                '' @ concat (req_options req5))
                                                  @ ln ''            })''
                                                  @ ln (''            '' @ concat (req_after req5))
                                                  @ ''        '')
                                              (req_file req5)\<rparr>)))))))\<close>

section \<open>Example inputs\<close>

definition optionsMethod :: Method where
  "optionsMethod =
     \<lparr>method_displayName = None, method_method = ''options'', method_queryParameters = [],
      method_body = [], method_is = [], method_responses = []\<rparr>"

definition usersResource :: Resource where
  "usersResource =
     \<lparr>absoluteUri = ''https://example.com/api/v{version}/users'',
      absoluteUriParameters = [TypeDeclaration ''version'' None True [''string''] None None]\<rparr>"

definition emptyFile :: File where
  "emptyFile = \<lparr>file_identifiers = [], file_imports = [], file_structs = [], file_funcs = []\<rparr>"

text \<open>\<^verbatim>\<open>new Request(file, resource)\<close>.\<close>

definition newRequest :: "File \<Rightarrow> Resource \<Rightarrow> Request" where
  "newRequest file resource =
     \<lparr>req_file = file, req_resource = resource, req_func = [], req_options = [],
      req_before = [], req_after = [], req_console = []\<rparr>"

definition itemResource :: Resource where
  "itemResource =
     \<lparr>absoluteUri = ''https://example.com/api/v{version}/users/{id}'',
      absoluteUriParameters =
        [TypeDeclaration ''version'' None True [''string''] None None,
         TypeDeclaration ''id'' None True [''integer''] None None]\<rparr>"

definition noContentMethod :: Method where
  "noContentMethod =
     \<lparr>method_displayName = None, method_method = ''delete'', method_queryParameters = [],
      method_body = [], method_is = [],
      method_responses = [\<lparr>res_code = ''204'', res_body = []\<rparr>]\<rparr>"

text \<open>What a run has put into the file: per function its name, arguments, return
  types and body segments.\<close>

definition generated ::
    "Request result \<Rightarrow> (error + (string \<times> Arg list \<times> string list \<times> string list) list) option" where
  "generated r =
     map_option (map_sum id (\<lambda>req.
       map (\<lambda>f. (func_name f, func_args f, func_returns f, func_body f))
         (file_funcs (req_file req)))) r"





definition pagedMethod :: Method where
  "pagedMethod =
     \<lparr>method_displayName = None, method_method = ''get'',
      method_queryParameters = [TypeDeclaration ''limit'' None False [''integer''] None None],
      method_body = [],
      method_is = [\<lparr>trait_queryParameters = [TypeDeclaration ''page'' None False [''number''] None None],
                    trait_body = []\<rparr>],
      method_responses = []\<rparr>"

definition getUsersRequest :: Request where
  "getUsersRequest =
     (newRequest (file_func ''GetUsers'' emptyFile) usersResource)\<lparr>req_func := ''GetUsers''\<rparr>"

text \<open>The struct field and the serialization line that one query parameter
  contributes.\<close>

definition queryField :: "TypeDeclaration \<Rightarrow> string \<times> string \<times> string option" where
  "queryField p = (translatePropName (decl_name p) True, translateTypeString (hd (decl_type p)), None)"

definition setLine :: "TypeDeclaration \<Rightarrow> string" where
  \<open>setLine p = ''v.Set("'' @ decl_name p @ ''", query.'' @ translatePropName (decl_name p) True @ '')\<newline>''\<close>

definition uploadMethod :: Method where
  "uploadMethod =
     \<lparr>method_displayName = None, method_method = ''post'', method_queryParameters = [],
      method_body = [TypeDeclaration ''multipart/form-data'' (Some ''multipart/form-data'') True
                       [''object''] None
                       (Some [TypeDeclaration ''avatar'' None True [''file''] None None])],
      method_is = [], method_responses = []\<rparr>"

text \<open>A rendering of calls, for the examples.\<close>

definition renderCall :: "string \<Rightarrow> Arg list \<Rightarrow> string" where
  "renderCall f args = f @ ''('' @ concat (map (\<lambda>a. arg_name a @ '', '') args) @ '')''"





section \<open>Properties of name resolution\<close>

lemmas char_defs =
  isAlnum_def isLower_def isUpper_def isDigit_def lowers_def uppers_def digits_def
  toUpperCase_def

lemmas name_defs =
  translatePropName_def fixCaps_def capitalizations_def upperFirst_def

text \<open>
  C6 (amended).  The acronym fixes are applied in the order of the table, the rule for
  \<open>Id\<close> first and the rule for \<open>Oauth\<close> on its result, and they compose: \<open>OauthId\<close>
  becomes \<open>OAuthID\<close>.  Each rule rewrites every occurrence of its term as a substring,
  whatever follows it: a string that begins with \<open>Id\<close> is rewritten to begin with
  \<open>ID\<close>.
\<close>

theorem fixCaps_composes:
  "fixCaps s = replaceAll ''Oauth'' ''OAuth'' (replaceAll ''Id'' ''ID'' s) \<and>
   fixCaps ''OauthId'' = ''OAuthID'' \<and>
   fixCaps ''OauthIdOrOauthId'' = ''OAuthIDOrOAuthID'' \<and>
   fixCaps (''Id'' @ s) = ''ID'' @ fixCaps s"
  by (simp add: fixCaps_def capitalizations_def)

text \<open>
  C6 (as stated) fails: the rules are not restricted to whole words.  In \<open>Idle\<close> the
  term \<open>Id\<close> is only the beginning of a word, and it is rewritten all the same.
\<close>

theorem fixCaps_inside_word:
  "fixCaps ''Idle'' = ''IDle'' \<and> fixCaps ''Idle'' \<noteq> ''Idle''"
  by (simp add: fixCaps_def capitalizations_def)

text \<open>
  C10.  A method without a declared name whose verb is none of get, post, put, patch
  and delete is named \<open>UNKNOWN\<close>, whatever the resource: the name has no verb prefix
  and no tail, and the derivation does not raise.
\<close>

theorem inferMethodName_unknown_verb:
  assumes "method_displayName method = None"
    and "method_method method \<notin> {''get'', ''post'', ''put'', ''patch'', ''delete''}"
  shows "inferMethodName resource method = ''UNKNOWN''"
  using assms by (simp add: inferMethodName_def Let_def)

theorem inferMethodName_unknown_verb_witness:
  "method_displayName optionsMethod = None \<and>
   method_method optionsMethod \<notin> {''get'', ''post'', ''put'', ''patch'', ''delete''} \<and>
   inferMethodName usersResource optionsMethod = ''UNKNOWN''"
proof -
  have a: "method_displayName optionsMethod = None"
    by (simp add: optionsMethod_def)
  have b: "method_method optionsMethod \<notin> {''get'', ''post'', ''put'', ''patch'', ''delete''}"
    by (simp add: optionsMethod_def)
  show ?thesis
    using a b inferMethodName_unknown_verb [OF a b] by simp
qed

lemma replaceAll_unchanged:
  "c \<in> set rep \<Longrightarrow> c \<notin> set (replaceAll needle rep s) \<Longrightarrow> replaceAll needle rep s = s"
  by (induction needle rep s rule: replaceAll.induct) (auto split: if_splits)

lemma fixCaps_type: "fixCaps s = ''type'' \<Longrightarrow> s = ''type''"
proof -
  assume a: "fixCaps s = ''type''"
  let ?m = "replaceAll ''Id'' ''ID'' s"
  from a have b: "replaceAll ''Oauth'' ''OAuth'' ?m = ''type''"
    by (simp add: fixCaps_def capitalizations_def)
  have "replaceAll ''Oauth'' ''OAuth'' ?m = ?m"
    by (rule replaceAll_unchanged [of "CHR ''A''"]) (simp_all add: b)
  with b have c: "?m = ''type''" by simp
  have "?m = s"
    by (rule replaceAll_unchanged [of "CHR ''D''"]) (simp_all add: c)
  with c show ?thesis by simp
qed

text \<open>
  C4 (amended).  The replacement is made when the name, once split, capitalised and
  joined, is exactly the reserved word \<open>type\<close>.  So the unexported name \<open>type\<close>
  resolves to \<open>kind\<close>; the exported name \<open>type\<close> is capitalised to \<open>Type\<close>, which is
  not reserved, and is kept; and no name, under either flag, resolves to \<open>type\<close>.
\<close>

theorem translatePropName_type:
  "translatePropName ''type'' False = ''kind'' \<and>
   translatePropName ''type'' True = ''Type'' \<and>
   translatePropName name isExported \<noteq> ''type''"
proof -
  have "translatePropName name isExported \<noteq> ''type''"
    unfolding translatePropName_def Let_def
    by (auto dest!: fixCaps_type split: if_splits)
  moreover have "translatePropName ''type'' False = ''kind''"
    by (simp add: name_defs char_defs)
  moreover have "translatePropName ''type'' True = ''Type''"
    by (simp add: name_defs char_defs)
  ultimately show ?thesis by simp
qed

text \<open>
  C4 (as stated) fails for the export flag set: the exported name \<open>type\<close> resolves to
  \<open>Type\<close>, not to \<open>Kind\<close>.
\<close>

theorem translatePropName_type_exported:
  "translatePropName ''type'' True \<noteq> ''Kind''"
  by (simp add: name_defs char_defs)

section \<open>Properties of endpoint generation\<close>

lemmas builder_defs =
  file_import_def file_struct_def struct_field_def file_func_def func_update_def
  func_methodOf_def func_addArgs_def func_arg_def func_returns_add_def func_write_def

lemma translateTypeString_scalars [simp]:
  "translateTypeString ''string'' = ''string''"
  "translateTypeString ''integer'' = ''int''"
  "translateTypeString ''number'' = ''int''"
  "translateTypeString ''object'' = ''map[string]interface{}''"
  by (simp_all add: translateTypeString.simps suffix_to_prefix)

text \<open>
  C3 (the code at the failing input).  The method has one response, 204, without a
  body.  The generated function declares two return values, the transport response
  and an error; but its body goes on, after the early return of two values, to declare
  a variable of type \<open>undefined\<close>, to decode the response body into it and to return
  three values.
\<close>

theorem no_body_response_still_decodes:
  \<open>generated (Request_method call api noContentMethod (newRequest emptyFile usersResource)) =
     Some (Inr [(''DeleteUsers'', [], [''*http.Response'', ''error''],
       [''\<newline>            q := ""\<newline>\<newline>            res, err := c.do(&http.Request{\<newline>                Method: "delete",\<newline>                URL: "https://example.com/api/v1/users" + q,\<newline>                \<newline>            })\<newline>            \<newline>            if err != nil || res.StatusCode >= 300 {\<newline>                return res, err\<newline>            }\<newline>\<newline>            var typ undefined\<newline>            if err := json.NewDecoder(res.Body).Decode(&typ); err != nil {\<newline>                return err\<newline>            }\<newline>\<newline>            return res, typ, nil\<newline>        \<newline>        ''])])\<close>
  by (simp add: generated_def Request_method_def noContentMethod_def newRequest_def
      emptyFile_def usersResource_def inferMethodName_def getSuccessfulResponse_def isGood_def
      Number_def digitValue_def first_def isParamSegment_def setLast_def name_defs char_defs
      getPathFmtArgs_def translateType_def generateQueryParams_def queryParams_def
      generateBodyParams_def bodies_def generateFuncReturns_def getPathFmtCall_def
      builder_defs decodeText_def nl_def ln_def Let_def)

text \<open>
  C8 (the code at the failing input).  The path parameter \<open>id\<close> is declared an
  integer.  It becomes an argument of Go type \<open>int\<close>, and its place in the format
  string is taken by the string placeholder \<open>%s\<close>: only the declared type \<open>number\<close>
  gets \<open>%d\<close>.
\<close>

theorem integer_parameter_placeholder:
  \<open>getPathFmtArgs (newRequest emptyFile itemResource) = Inr [Arg ''id'' ''int''] \<and>
   pathFormat itemResource = ''https://example.com/api/v1/users/%s'' \<and>
   getPathFmtCall call (newRequest emptyFile itemResource) =
     Inr (trim (call ''fmt.Sprintf''
                  [Arg ''"https://example.com/api/v1/users/%s"'' ''string'', Arg ''id'' ''int''])
            @ '' + q'',
          newRequest (emptyFile\<lparr>file_imports := [''fmt'']\<rparr>) itemResource)\<close>
  by (simp add: getPathFmtCall_def getPathFmtArgs_def pathFormat_def placeholder_def
      itemResource_def newRequest_def emptyFile_def translateType_def first_def name_defs
      char_defs file_import_def Let_def)

lemma the_func_update:
  assumes "\<And>f. func_name (g f) = func_name f"
  shows "the_func name (func_update name g file) = map_option g (the_func name file)"
proof -
  have "find (\<lambda>f. func_name f = name) (map (\<lambda>f. if func_name f = name then g f else f) fs)
        = map_option g (find (\<lambda>f. func_name f = name) fs)" for fs
    by (induction fs) (simp_all add: assms)
  then show ?thesis by (simp add: the_func_def func_update_def)
qed










lemma the_struct_field:
  "the_struct name (struct_field name fld fl)
     = map_option (\<lambda>s. s\<lparr>struct_fields := struct_fields s @ [fld]\<rparr>) (the_struct name fl)"
proof -
  have "find (\<lambda>s. struct_name s = name)
          (map (\<lambda>s. if struct_name s = name then s\<lparr>struct_fields := struct_fields s @ [fld]\<rparr> else s) ss)
        = map_option (\<lambda>s. s\<lparr>struct_fields := struct_fields s @ [fld]\<rparr>)
            (find (\<lambda>s. struct_name s = name) ss)" for ss
    by (induction ss) simp_all
  then show ?thesis by (simp add: the_struct_def struct_field_def)
qed

lemma the_struct_fields_fold:
  "the_struct name (fold (\<lambda>p. struct_field name (fp p)) ps fl)
     = map_option (\<lambda>s. s\<lparr>struct_fields := struct_fields s @ map fp ps\<rparr>) (the_struct name fl)"
proof (induction ps arbitrary: fl)
  case Nil
  show ?case by (cases "the_struct name fl") simp_all
next
  case (Cons p ps)
  show ?case
    by (cases "the_struct name fl") (simp_all add: Cons.IH the_struct_field)
qed

lemma the_struct_file_struct:
  "the_struct name (file_struct name fl)
     = Some (case the_struct name fl of
               None \<Rightarrow> \<lparr>struct_name = name, struct_fields = []\<rparr>
             | Some s \<Rightarrow> s)"
proof -
  have a: "list_ex P xs \<longleftrightarrow> find P xs \<noteq> None" for P and xs :: "Struct list"
    by (induction xs) simp_all
  have b: "find P xs = None \<Longrightarrow> find P (xs @ [x]) = (if P x then Some x else None)"
    for P x and xs :: "Struct list"
    by (induction xs) (simp_all split: if_splits)
  show ?thesis
    by (cases "the_struct name fl") (auto simp: file_struct_def the_struct_def a b)
qed

lemma the_struct_name: "the_struct name fl = Some s \<Longrightarrow> struct_name s = name"
  unfolding the_struct_def by (induction "file_structs fl" arbitrary: fl) (auto simp: find_Some_iff)

lemma names_fold_struct_field [simp]:
  "map struct_name (file_structs (fold (\<lambda>p. struct_field name (fp p)) ps fl))
     = map struct_name (file_structs fl)"
  by (induction ps arbitrary: fl) (simp_all add: struct_field_def comp_def)

lemma funcs_fold_struct_field [simp]:
  "file_funcs (fold (\<lambda>p. struct_field name (fp p)) ps fl) = file_funcs fl"
  by (induction ps arbitrary: fl) (simp_all add: struct_field_def)

lemma imports_fold_struct_field [simp]:
  "file_imports (fold (\<lambda>p. struct_field name (fp p)) ps fl) = file_imports fl"
  by (induction ps arbitrary: fl) (simp_all add: struct_field_def)

lemma addQueryParams_typed:
  assumes "\<forall>p\<in>set ps. decl_type p \<noteq> []"
  shows "addQueryParams type ps req =
           Inr (req\<lparr>req_file := fold (\<lambda>p. struct_field type (queryField p)) ps (req_file req),
                    req_before := req_before req @ map setLine ps\<rparr>)"
  using assms
proof (induction ps arbitrary: req)
  case Nil
  show ?case by simp
next
  case (Cons p ps)
  from Cons.prems obtain t ts where t: "decl_type p = t # ts"
    by (cases "decl_type p") auto
  from Cons.prems have "\<forall>p\<in>set ps. decl_type p \<noteq> []" by simp
  note IH = Cons.IH [OF this]
  show ?case
    by (simp add: t first_def Let_def IH queryField_def setLine_def nl_def)
qed

text \<open>
  C5.  Query parameters are the method's own followed by those of its traits, each
  with a declared type.  When there are none, the only effect is the constant
  \<open>q := ""\<close> written before the request: the file, so its structs and the arguments
  of the function, is unchanged.  Otherwise the struct named after the function with
  the suffix \<open>Params\<close> is in the file, created if it was not there and the existing one
  otherwise, with one field per parameter appended in order; the function gains the
  argument \<open>query\<close> of that type; \<open>net/url\<close> is imported; and the code written before
  the request builds the values, sets one entry per parameter and encodes them into
  \<open>q\<close>.
\<close>

theorem generateQueryParams_struct:
  assumes "\<forall>p\<in>set (queryParams method). decl_type p \<noteq> []"
  shows \<open>\<exists>req'. generateQueryParams method req = Inr req' \<and>
     (if queryParams method = [] then
        req' = req\<lparr>req_before := req_before req @ [''q := ""\<newline>'']\<rparr>
      else
        the_struct (req_func req @ ''Params'') (req_file req') =
          Some \<lparr>struct_name = req_func req @ ''Params'',
                struct_fields =
                  (case the_struct (req_func req @ ''Params'') (req_file req) of
                     None \<Rightarrow> [] | Some s \<Rightarrow> struct_fields s) @
                  map (\<lambda>p. (translatePropName (decl_name p) True,
                            translateTypeString (hd (decl_type p)), None))
                    (queryParams method)\<rparr> \<and>
        map struct_name (file_structs (req_file req')) =
          map struct_name (file_structs (req_file req)) @
          (if the_struct (req_func req @ ''Params'') (req_file req) = None
           then [req_func req @ ''Params''] else []) \<and>
        the_func (req_func req) (req_file req') =
          map_option (\<lambda>f. f\<lparr>func_args := func_args f @ [Arg ''query'' (req_func req @ ''Params'')]\<rparr>)
            (the_func (req_func req) (req_file req)) \<and>
        ''net/url'' \<in> set (file_imports (req_file req')) \<and>
        req_before req' =
          req_before req @ [''v := url.Values{}\<newline>''] @
          map (\<lambda>p. ''v.Set("'' @ decl_name p @ ''", query.'' @ translatePropName (decl_name p) True
                     @ '')\<newline>'')
            (queryParams method) @
          [''q := "?" + v.Encode()\<newline>''])\<close>
proof (cases "queryParams method = []")
  case True
  then show ?thesis by (simp add: generateQueryParams_def nl_def)
next
  case False
  let ?T = "req_func req @ ''Params''"
  let ?f3 = "func_arg (req_func req) ''query'' ?T (file_struct ?T (file_import ''net/url'' (req_file req)))"
  let ?req1 = "req\<lparr>req_file := ?f3, req_before := req_before req @ [''v := url.Values{}'' @ nl]\<rparr>"
  let ?req' = \<open>?req1\<lparr>req_file := fold (\<lambda>p. struct_field ?T (queryField p)) (queryParams method) ?f3,
                      req_before := req_before ?req1 @ map setLine (queryParams method)
                         @ [''q := "?" + v.Encode()'' @ nl]\<rparr>\<close>
  have run: "generateQueryParams method req = Inr ?req'"
    using False by (simp add: generateQueryParams_def Let_def addQueryParams_typed [OF assms])
  have structs3: "the_struct ?T ?f3 = the_struct ?T (file_struct ?T (req_file req))"
    by (simp add: the_struct_def func_arg_def func_addArgs_def func_update_def file_struct_def
        file_import_def)
  have s: "the_struct ?T (req_file ?req') =
      Some ((case the_struct ?T (req_file req) of
               None \<Rightarrow> \<lparr>struct_name = ?T, struct_fields = []\<rparr> | Some s \<Rightarrow> s)
            \<lparr>struct_fields := struct_fields (case the_struct ?T (req_file req) of
               None \<Rightarrow> \<lparr>struct_name = ?T, struct_fields = []\<rparr> | Some s \<Rightarrow> s)
               @ map queryField (queryParams method)\<rparr>)"
    by (simp add: the_struct_fields_fold structs3 the_struct_file_struct)
  have s': "the_struct ?T (req_file ?req') =
          Some \<lparr>struct_name = ?T,
                struct_fields =
                  (case the_struct ?T (req_file req) of
                     None \<Rightarrow> [] | Some s \<Rightarrow> struct_fields s) @
                  map queryField (queryParams method)\<rparr>"
    unfolding s by (cases "the_struct ?T (req_file req)") (auto dest: the_struct_name)
  have n: "map struct_name (file_structs (req_file ?req')) =
          map struct_name (file_structs (req_file req)) @
          (if the_struct ?T (req_file req) = None then [?T] else [])"
  proof -
    have a: "list_ex P xs \<longleftrightarrow> find P xs \<noteq> None" for P and xs :: "Struct list"
      by (induction xs) simp_all
    show ?thesis
      by (simp add: func_arg_def func_addArgs_def func_update_def file_struct_def
          file_import_def the_struct_def a)
  qed
  have f: "the_func (req_func req) (req_file ?req') =
          map_option (\<lambda>f. f\<lparr>func_args := func_args f @ [Arg ''query'' ?T]\<rparr>)
            (the_func (req_func req) (req_file req))"
  proof -
    have "the_func (req_func req) (req_file ?req') = the_func (req_func req) ?f3"
      by (simp add: the_func_def)
    also have "\<dots> = map_option (\<lambda>f. f\<lparr>func_args := func_args f @ [Arg ''query'' ?T]\<rparr>)
            (the_func (req_func req) (file_struct ?T (file_import ''net/url'' (req_file req))))"
      by (simp add: func_arg_def func_addArgs_def the_func_update)
    also have "the_func (req_func req) (file_struct ?T (file_import ''net/url'' (req_file req)))
        = the_func (req_func req) (req_file req)"
      by (simp add: the_func_def file_struct_def file_import_def)
    finally show ?thesis .
  qed
  have i: "''net/url'' \<in> set (file_imports (req_file ?req'))"
    by (simp add: func_arg_def func_addArgs_def func_update_def file_struct_def file_import_def)
  have b: \<open>req_before ?req' = req_before req @ [''v := url.Values{}\<newline>''] @
          map setLine (queryParams method) @ [''q := "?" + v.Encode()\<newline>'']\<close>
    by (simp add: nl_def)
  have qf: "queryField = (\<lambda>p. (translatePropName (decl_name p) True,
                            translateTypeString (hd (decl_type p)), None))"
    by (rule ext) (simp add: queryField_def)
  have sl: \<open>setLine = (\<lambda>p. ''v.Set("'' @ decl_name p @ ''", query.'' @ translatePropName (decl_name p) True
                     @ '')\<newline>'')\<close>
    by (rule ext) (simp add: setLine_def)
  show ?thesis
    using False run s' n f i b by (intro exI [of _ ?req']) (simp add: nl_def qf sl)
qed


theorem generateQueryParams_struct_witness:
  \<open>map decl_type (queryParams pagedMethod) = [[''integer''], [''number'']] \<and>
   (\<exists>req'. generateQueryParams pagedMethod getUsersRequest = Inr req' \<and>
      the_struct ''GetUsersParams'' (req_file req') =
        Some \<lparr>struct_name = ''GetUsersParams'',
              struct_fields = [(''Limit'', ''int'', None), (''Page'', ''int'', None)]\<rparr> \<and>
      map struct_name (file_structs (req_file req')) = [''GetUsersParams''] \<and>
      the_func ''GetUsers'' (req_file req') =
        Some \<lparr>func_name = ''GetUsers'', func_receiver = None,
              func_args = [Arg ''query'' ''GetUsersParams''], func_returns = [], func_body = []\<rparr> \<and>
      req_before req' =
        [''v := url.Values{}\<newline>'', ''v.Set("limit", query.Limit)\<newline>'',
         ''v.Set("page", query.Page)\<newline>'', ''q := "?" + v.Encode()\<newline>''])\<close>
proof -
  have q: "queryParams pagedMethod =
      [TypeDeclaration ''limit'' None False [''integer''] None None,
       TypeDeclaration ''page'' None False [''number''] None None]"
    by (simp add: queryParams_def pagedMethod_def)
  have h: "\<forall>p\<in>set (queryParams pagedMethod). decl_type p \<noteq> []"
    by (simp add: q)
  show ?thesis
    using h generateQueryParams_struct [OF h, of getUsersRequest]
    by (auto simp: q getUsersRequest_def newRequest_def emptyFile_def file_func_def the_struct_def
        the_func_def name_defs char_defs)
qed

section \<open>Request bodies\<close>

text \<open>
  C1 (amended).  When the first resolved body of a method has a content kind other
  than \<open>application/json\<close>, the body step raises no error and returns: for
  \<open>multipart/form-data\<close> it leaves the request under construction as it was (no
  payload argument, no serialization code, no request options), and for any other
  kind, or none, it does the same and reports \<open>Unknown body type\<close> on the error
  console.  Generation of the operation then goes on.
\<close>

theorem generateBodyParams_other_kind:
  assumes "first (bodies method) = Some body"
    and "decl_displayName body \<noteq> Some ''application/json''"
  shows "generateBodyParams api method req =
           Some (Inr (if decl_displayName body = Some ''multipart/form-data'' then req
                      else req\<lparr>req_console := req_console req @ [''Unknown body type:'']\<rparr>))"
  using assms by (simp add: generateBodyParams_def)

theorem generateBodyParams_other_kind_witness:
  "first (bodies uploadMethod) = Some (hd (method_body uploadMethod)) \<and>
   decl_displayName (hd (method_body uploadMethod)) = Some ''multipart/form-data'' \<and>
   generateBodyParams [] uploadMethod (newRequest emptyFile usersResource) =
     Some (Inr (newRequest emptyFile usersResource))"
proof -
  have a: "first (bodies uploadMethod) = Some (hd (method_body uploadMethod))"
    by (simp add: bodies_def uploadMethod_def first_def)
  have b: "decl_displayName (hd (method_body uploadMethod)) \<noteq> Some ''application/json''"
    by (simp add: uploadMethod_def)
  show ?thesis
    using a generateBodyParams_other_kind [OF a b, of "[]" "newRequest emptyFile usersResource"]
    by (simp add: uploadMethod_def)
qed

text \<open>
  C1 (as stated) fails: for a method whose body is \<open>multipart/form-data\<close> the
  generation of the operation completes and the function is emitted, without any
  trace of the body.
\<close>

theorem multipart_body_generates:
  \<open>generated (Request_method renderCall [] uploadMethod (newRequest emptyFile usersResource)) =
     Some (Inr [(''CreateUsers'', [], [''*http.Response'', ''error''],
       [''\<newline>            q := ""\<newline>\<newline>            res, err := c.do(&http.Request{\<newline>                Method: "post",\<newline>                URL: "https://example.com/api/v1/users" + q,\<newline>                \<newline>            })\<newline>            return res, err\<newline>\<newline>        ''])])\<close>
  by (simp add: generated_def Request_method_def uploadMethod_def newRequest_def
      emptyFile_def usersResource_def inferMethodName_def getSuccessfulResponse_def
      first_def isParamSegment_def setLast_def name_defs char_defs
      getPathFmtArgs_def generateQueryParams_def queryParams_def
      generateBodyParams_def bodies_def generateFuncReturns_def getPathFmtCall_def
      builder_defs nl_def ln_def Let_def)

section \<open>Termination of the flattening\<close>









end
